theory Spec2Isabelle
  imports Main
begin

section \<open>Data model\<close>

text \<open>
  The client is a base class \<open>RechargeResource\<close> (module \<open>recharge.api\<close>) and one
  subclass per group of endpoints. The base class keeps the access token, the scopes of
  the token and the list of endpoints it has approved, and sends the four HTTP verbs
  through the \<open>requests\<close> library.

  A permission scope (\<open>TokenScope\<close>, \<open>RechargeScope\<close>) is a string at run time.
\<close>

type_synonym scope = string

text \<open>
  Request bodies, query parameters and response bodies are JSON values
  (\<open>Mapping[str, Any] | None\<close> in the signatures; \<open>None\<close> is \<open>None\<close> of the option type).
\<close>

datatype json =
    JNull
  | JBool bool
  | JNum int
  | JStr string
  | JArr "json list"
  | JObj "(string \<times> json) list"

datatype verb = DELETE | GET | PUT | POST

text \<open>
  What one call of \<open>requests.delete/get/put/post\<close> sends: the URL and the keyword
  arguments \<open>params\<close>, \<open>json\<close> and \<open>headers\<close>.
\<close>

record request =
  req_verb :: verb
  req_url :: string
  req_params :: "json option"
  req_json :: "json option"
  req_headers :: "(string \<times> string option) list"

text \<open>
  What the code reads of a \<open>requests.Response\<close>: \<open>status_code\<close>, the header
  \<open>headers["X-Recharge-Limit"]\<close> (\<open>None\<close> when the lookup raises \<open>KeyError\<close>) and the
  value of \<open>response.json()\<close> (\<open>None\<close> when the body does not parse and the call raises).
\<close>

record response =
  status_code :: int
  limit_header :: "string option"
  json_body :: "json option"

text \<open>
  The attributes of a resource object. \<open>object_list_key\<close> is the class attribute each
  subclass sets; \<open>headers\<close> holds the access token, which may be \<open>None\<close>.
\<close>

record resource =
  object_list_key :: string
  debug :: bool
  headers :: "(string \<times> string option) list"
  scopes :: "scope list option"
  allowed_endpoints :: "string list"

text \<open>
  The effects of a call, in the order they happen: an HTTP exchange (the request sent and
  the response received), \<open>time.sleep(d)\<close>, and \<open>log.info(s)\<close>. The environment answers a
  request as a function of everything that happened before it, so it may count requests
  and see how long the client slept.
\<close>

datatype event = Exchange request response | Sleep nat | LogInfo string

type_synonym server = "event list \<Rightarrow> request \<Rightarrow> response"

text \<open>
  Exceptions. The two \<open>ValueError\<close>s of \<open>check_scopes\<close> carry the data their message is
  formatted from: \<open>NoScopesFound\<close> is \<open>ValueError("No scopes found for token.")\<close> and
  \<open>MissingScopes endpoint missing\<close> is
  \<open>ValueError(f"Endpoint {endpoint} missing scopes: {missing_scopes}")\<close>.
  \<open>RecursionError\<close> is raised by the interpreter when the retries, which are recursive
  calls, exceed the recursion depth that is left. \<open>AttributeError\<close> is what calling a
  method the object does not have raises.
\<close>

datatype error =
    NoScopesFound
  | MissingScopes string "scope list"
  | KeyError
  | JSONDecodeError
  | RecursionError
  | AttributeError

text \<open>
  \<open>http_get\<close>, \<open>http_put\<close> and \<open>http_post\<close> return \<open>response.json()\<close>; \<open>http_delete\<close>
  returns the response object.
\<close>

datatype retval = Parsed json | Raw response

section \<open>The base class\<close>

definition base_url :: string where
  "base_url = ''https://api.rechargeapps.com''"

text \<open>\<open>__init__\<close>; the first argument is the subclass's \<open>object_list_key\<close>.\<close>

definition init :: "string \<Rightarrow> string option \<Rightarrow> bool \<Rightarrow> scope list option \<Rightarrow> resource" where
  "init key access_token dbg scs =
     \<lparr>object_list_key = key,
      debug = dbg,
      headers = [(''Accept'', Some ''application/json''),
                 (''Content-Type'', Some ''application/json''),
                 (''X-Recharge-Access-Token'', access_token)],
      scopes = scs,
      allowed_endpoints = []\<rparr>"

text \<open>
  The loop of \<open>check_scopes\<close> that collects the required scopes the token does not hold;
  the last argument is the list \<open>missing_scopes\<close> built so far.
\<close>

fun collect_missing :: "scope list \<Rightarrow> scope list \<Rightarrow> scope list \<Rightarrow> scope list" where
  "collect_missing held [] missing_scopes = missing_scopes"
| "collect_missing held (s # rest) missing_scopes =
     collect_missing held rest
       (if s \<notin> set held then missing_scopes @ [s] else missing_scopes)"

text \<open>
  \<open>check_scopes\<close> returns nothing or raises, and may append to \<open>self.allowed_endpoints\<close>:
  the model returns the outcome and the resource after the call. \<open>not self.scopes\<close> is
  true for \<open>None\<close> and for the empty list.
\<close>

definition check_scopes :: "resource \<Rightarrow> string \<Rightarrow> scope list \<Rightarrow> (error + unit) \<times> resource" where
  "check_scopes self endpoint required_scopes =
     (if endpoint \<in> set (allowed_endpoints self) then (Inr (), self)
      else
        (case scopes self of
           None \<Rightarrow> (Inl NoScopesFound, self)
         | Some held \<Rightarrow>
             if held = [] then (Inl NoScopesFound, self)
             else
               (let missing_scopes = collect_missing held required_scopes [] in
                if missing_scopes \<noteq> [] then (Inl (MissingScopes endpoint missing_scopes), self)
                else (Inr (), self\<lparr>allowed_endpoints := allowed_endpoints self @ [endpoint]\<rparr>))))"

text \<open>The method \<open>log\<close>: two \<open>log.info\<close> calls when \<open>debug\<close> is set.\<close>

definition log :: "resource \<Rightarrow> string \<Rightarrow> response \<Rightarrow> event list \<Rightarrow> (error + unit) \<times> event list" where
  "log self u rsp w =
     (if debug self then
        (case limit_header rsp of
           None \<Rightarrow> (Inl KeyError, w @ [LogInfo u])
         | Some v \<Rightarrow> (Inr (), w @ [LogInfo u, LogInfo v]))
      else (Inr (), w))"

text \<open>The lines \<open>log\<close> has written when it returns.\<close>

definition logged :: "resource \<Rightarrow> string \<Rightarrow> response \<Rightarrow> event list" where
  "logged self u rsp =
     (if debug self then
        (case limit_header rsp of None \<Rightarrow> [LogInfo u] | Some v \<Rightarrow> [LogInfo u, LogInfo v])
      else [])"

text \<open>The property \<open>url\<close>.\<close>

definition url :: "resource \<Rightarrow> string" where
  "url self = base_url @ ''/'' @ object_list_key self"

text \<open>
  The four verbs. The first argument is the recursion depth the interpreter has left:
  each retry is a recursive call, and with none left the call raises \<open>RecursionError\<close>.
  The last argument is the trace of effects so far; the result is the value returned or
  the exception raised, with the trace after the call.
\<close>

fun http_delete ::
  "nat \<Rightarrow> server \<Rightarrow> resource \<Rightarrow> string \<Rightarrow> json option \<Rightarrow> event list
     \<Rightarrow> (error + retval) \<times> event list" where
  "http_delete 0 srv self u body w = (Inl RecursionError, w)"
| "http_delete (Suc depth) srv self u body w =
     (let rq = \<lparr>req_verb = DELETE, req_url = u, req_params = None, req_json = body,
                req_headers = headers self\<rparr>;
          rsp = srv w rq;
          w1 = w @ [Exchange rq rsp, LogInfo u]
      in case limit_header rsp of
           None \<Rightarrow> (Inl KeyError, w1)
         | Some v \<Rightarrow>
             if status_code rsp = 429 then http_delete depth srv self u None (w1 @ [LogInfo v])
             else (Inr (Raw rsp), w1 @ [LogInfo v]))"

fun http_get ::
  "nat \<Rightarrow> server \<Rightarrow> resource \<Rightarrow> string \<Rightarrow> json option \<Rightarrow> event list
     \<Rightarrow> (error + retval) \<times> event list" where
  "http_get 0 srv self u query w = (Inl RecursionError, w)"
| "http_get (Suc depth) srv self u query w =
     (let rq = \<lparr>req_verb = GET, req_url = u, req_params = query, req_json = None,
                req_headers = headers self\<rparr>;
          rsp = srv w rq
      in case log self u rsp (w @ [Exchange rq rsp]) of
           (Inl e, w1) \<Rightarrow> (Inl e, w1)
         | (Inr _, w1) \<Rightarrow>
             if status_code rsp = 429 then http_get depth srv self u None (w1 @ [Sleep 1])
             else (case json_body rsp of
                     None \<Rightarrow> (Inl JSONDecodeError, w1)
                   | Some j \<Rightarrow> (Inr (Parsed j), w1)))"

fun http_put ::
  "nat \<Rightarrow> server \<Rightarrow> resource \<Rightarrow> string \<Rightarrow> json option \<Rightarrow> json option \<Rightarrow> event list
     \<Rightarrow> (error + retval) \<times> event list" where
  "http_put 0 srv self u body query w = (Inl RecursionError, w)"
| "http_put (Suc depth) srv self u body query w =
     (let rq = \<lparr>req_verb = PUT, req_url = u, req_params = query, req_json = body,
                req_headers = headers self\<rparr>;
          rsp = srv w rq
      in case log self u rsp (w @ [Exchange rq rsp]) of
           (Inl e, w1) \<Rightarrow> (Inl e, w1)
         | (Inr _, w1) \<Rightarrow>
             if status_code rsp = 429 then http_put depth srv self u body None (w1 @ [Sleep 1])
             else (case json_body rsp of
                     None \<Rightarrow> (Inl JSONDecodeError, w1)
                   | Some j \<Rightarrow> (Inr (Parsed j), w1)))"

fun http_post ::
  "nat \<Rightarrow> server \<Rightarrow> resource \<Rightarrow> string \<Rightarrow> json option \<Rightarrow> json option \<Rightarrow> event list
     \<Rightarrow> (error + retval) \<times> event list" where
  "http_post 0 srv self u body query w = (Inl RecursionError, w)"
| "http_post (Suc depth) srv self u body query w =
     (let rq = \<lparr>req_verb = POST, req_url = u, req_params = query, req_json = body,
                req_headers = headers self\<rparr>;
          rsp = srv w rq
      in case log self u rsp (w @ [Exchange rq rsp]) of
           (Inl e, w1) \<Rightarrow> (Inl e, w1)
         | (Inr _, w1) \<Rightarrow>
             if status_code rsp = 429 then http_post depth srv self u body None (w1 @ [Sleep 1])
             else (case json_body rsp of
                     None \<Rightarrow> (Inl JSONDecodeError, w1)
                   | Some j \<Rightarrow> (Inr (Parsed j), w1)))"

section \<open>The resource classes\<close>

text \<open>
  A method of a resource class returns a value or raises, extends the trace, and may
  change the object (through \<open>check_scopes\<close>).
\<close>

type_synonym outcome = "(error + retval) \<times> event list \<times> resource"

text \<open>
  The body of almost every method is \<open>self.check_scopes(...)\<close> followed by
  \<open>return self.http_...(...)\<close>: an exception of the first statement leaves the method, and
  the second statement runs on the object as the first one left it.
\<close>

definition check_then ::
  "(error + unit) \<times> resource \<Rightarrow> (resource \<Rightarrow> (error + retval) \<times> event list) \<Rightarrow> event list
     \<Rightarrow> outcome" where
  "check_then checked send w =
     (case checked of
        (Inl e, self1) \<Rightarrow> (Inl e, w, self1)
      | (Inr _, self1) \<Rightarrow> (case send self1 of (r, w1) \<Rightarrow> (r, w1, self1)))"

text \<open>
  The classes of \<open>recharge.api.v2\<close> call \<open>self._http_get\<close>, \<open>self._http_post\<close>,
  \<open>self._http_put\<close> and \<open>self._http_delete\<close>, which the base class of \<open>recharge.api\<close>
  does not define. They are a parameter of the model: \<open>priv v\<close> is the private helper of
  verb \<open>v\<close>, applied to the object, the URL and the other positional arguments.
\<close>

type_synonym private_http =
  "verb \<Rightarrow> resource \<Rightarrow> string \<Rightarrow> json option list \<Rightarrow> event list \<Rightarrow> (error + retval) \<times> event list"

subsection \<open>\<open>AddressResource\<close>\<close>

text \<open>Identifiers are the text the f-strings put into the URL.\<close>

definition AddressResource_create ::
  "nat \<Rightarrow> server \<Rightarrow> resource \<Rightarrow> string \<Rightarrow> json option \<Rightarrow> event list \<Rightarrow> outcome" where
  "AddressResource_create depth srv self customer_id body w =
     check_then (check_scopes self ''POST /customers/:customer_id/addresses'' [''write_customers''])
       (\<lambda>self. http_post depth srv self
          (base_url @ ''/customers/'' @ customer_id @ ''/'' @ object_list_key self) body None w) w"

definition AddressResource_get ::
  "nat \<Rightarrow> server \<Rightarrow> resource \<Rightarrow> string \<Rightarrow> event list \<Rightarrow> outcome" where
  "AddressResource_get depth srv self address_id w =
     check_then (check_scopes self (''GET '' @ object_list_key self @ ''/:address_id'') [''read_customers''])
       (\<lambda>self. http_get depth srv self (url self @ ''/'' @ address_id) None w) w"

definition AddressResource_update ::
  "nat \<Rightarrow> server \<Rightarrow> resource \<Rightarrow> string \<Rightarrow> json option \<Rightarrow> event list \<Rightarrow> outcome" where
  "AddressResource_update depth srv self address_id body w =
     check_then (check_scopes self (''PUT '' @ object_list_key self @ ''/:id'') [''write_customers''])
       (\<lambda>self. http_put depth srv self (url self @ ''/'' @ address_id) body None w) w"

definition AddressResource_delete ::
  "nat \<Rightarrow> server \<Rightarrow> resource \<Rightarrow> string \<Rightarrow> event list \<Rightarrow> outcome" where
  "AddressResource_delete depth srv self address_id w =
     check_then (check_scopes self (''DELETE '' @ object_list_key self @ ''/:address_id'') [''write_customers''])
       (\<lambda>self. http_delete depth srv self (url self @ ''/'' @ address_id) None w) w"

definition AddressResource_list ::
  "nat \<Rightarrow> server \<Rightarrow> resource \<Rightarrow> string \<Rightarrow> json option \<Rightarrow> event list \<Rightarrow> outcome" where
  "AddressResource_list depth srv self customer_id query w =
     check_then (check_scopes self (''GET /customers/:customer_id/'' @ object_list_key self) [''read_customers''])
       (\<lambda>self. http_get depth srv self
          (base_url @ ''/customers/'' @ customer_id @ ''/'' @ object_list_key self) query w) w"

definition AddressResource_count ::
  "nat \<Rightarrow> server \<Rightarrow> resource \<Rightarrow> json option \<Rightarrow> event list \<Rightarrow> outcome" where
  "AddressResource_count depth srv self query w =
     check_then (check_scopes self ''GET /addresses/count'' [''read_customers''])
       (\<lambda>self. http_get depth srv self (url self @ ''/count'') query w) w"

text \<open>\<open>validate\<close> has no \<open>check_scopes\<close> statement: its body is the \<open>http_post\<close> call.\<close>

definition AddressResource_validate ::
  "nat \<Rightarrow> server \<Rightarrow> resource \<Rightarrow> json option \<Rightarrow> event list \<Rightarrow> outcome" where
  "AddressResource_validate depth srv self body w =
     (case http_post depth srv self (url self @ ''/validate_address'') body None w of
        (r, w1) \<Rightarrow> (r, w1, self))"

definition AddressResource_apply_discount ::
  "nat \<Rightarrow> server \<Rightarrow> resource \<Rightarrow> string \<Rightarrow> json option \<Rightarrow> event list \<Rightarrow> outcome" where
  "AddressResource_apply_discount depth srv self address_id body w =
     check_then (check_scopes self ''POST /addresses/:address_id/apply_discount'' [''write_discounts''])
       (\<lambda>self. http_post depth srv self (url self @ ''/'' @ address_id @ ''/apply_discount'') body None w) w"

definition AddressResource_remove_discount ::
  "nat \<Rightarrow> server \<Rightarrow> resource \<Rightarrow> string \<Rightarrow> event list \<Rightarrow> outcome" where
  "AddressResource_remove_discount depth srv self address_id w =
     check_then (check_scopes self ''POST /addresses/:address_id/remove_discount'' [''write_discounts''])
       (\<lambda>self. http_post depth srv self (url self @ ''/'' @ address_id @ ''/remove_discount'') None None w) w"

subsection \<open>\<open>ProductResource\<close>\<close>

definition ProductResource_create ::
  "nat \<Rightarrow> server \<Rightarrow> resource \<Rightarrow> json option \<Rightarrow> event list \<Rightarrow> outcome" where
  "ProductResource_create depth srv self body w =
     check_then (check_scopes self ''POST /products'' [''write_products''])
       (\<lambda>self. http_post depth srv self (url self) body None w) w"

definition ProductResource_get ::
  "nat \<Rightarrow> server \<Rightarrow> resource \<Rightarrow> string \<Rightarrow> event list \<Rightarrow> outcome" where
  "ProductResource_get depth srv self product_id w =
     check_then (check_scopes self (''GET /products/'' @ product_id) [''read_products''])
       (\<lambda>self. http_get depth srv self (url self @ ''/'' @ product_id) None w) w"

definition ProductResource_update ::
  "nat \<Rightarrow> server \<Rightarrow> resource \<Rightarrow> string \<Rightarrow> json option \<Rightarrow> event list \<Rightarrow> outcome" where
  "ProductResource_update depth srv self product_id body w =
     check_then (check_scopes self (''PUT /products/'' @ product_id) [''write_products''])
       (\<lambda>self. http_put depth srv self (url self @ ''/'' @ product_id) body None w) w"

definition ProductResource_delete ::
  "nat \<Rightarrow> server \<Rightarrow> resource \<Rightarrow> string \<Rightarrow> event list \<Rightarrow> outcome" where
  "ProductResource_delete depth srv self product_id w =
     check_then (check_scopes self (''DELETE /products/'' @ product_id) [''write_products''])
       (\<lambda>self. http_delete depth srv self (url self @ ''/'' @ product_id) None w) w"

definition ProductResource_list ::
  "nat \<Rightarrow> server \<Rightarrow> resource \<Rightarrow> json option \<Rightarrow> event list \<Rightarrow> outcome" where
  "ProductResource_list depth srv self query w =
     check_then (check_scopes self ''GET /products'' [''read_products''])
       (\<lambda>self. http_get depth srv self (url self) query w) w"

definition ProductResource_count ::
  "nat \<Rightarrow> server \<Rightarrow> resource \<Rightarrow> event list \<Rightarrow> outcome" where
  "ProductResource_count depth srv self w =
     check_then (check_scopes self ''GET /products/count'' [''read_products''])
       (\<lambda>self. http_get depth srv self (url self @ ''/count'') None w) w"

subsection \<open>\<open>DiscountResource\<close> (v2)\<close>

definition DiscountResource_create ::
  "private_http \<Rightarrow> resource \<Rightarrow> json option \<Rightarrow> event list \<Rightarrow> outcome" where
  "DiscountResource_create priv self body w =
     check_then (check_scopes self (''POST /'' @ object_list_key self) [''write_discounts''])
       (\<lambda>self. priv POST self (url self) [body] w) w"

definition DiscountResource_get ::
  "private_http \<Rightarrow> resource \<Rightarrow> string \<Rightarrow> event list \<Rightarrow> outcome" where
  "DiscountResource_get priv self discount_id w =
     check_then (check_scopes self (''GET /'' @ object_list_key self @ ''/:discount_id'') [''read_discounts''])
       (\<lambda>self. priv GET self (url self @ ''/'' @ discount_id) [] w) w"

definition DiscountResource_update ::
  "private_http \<Rightarrow> resource \<Rightarrow> string \<Rightarrow> json option \<Rightarrow> event list \<Rightarrow> outcome" where
  "DiscountResource_update priv self discount_id body w =
     check_then (check_scopes self (''PUT /'' @ object_list_key self @ ''/:discount_id'') [''write_discounts''])
       (\<lambda>self. priv PUT self (url self @ ''/'' @ discount_id) [body] w) w"

definition DiscountResource_delete ::
  "private_http \<Rightarrow> resource \<Rightarrow> string \<Rightarrow> event list \<Rightarrow> outcome" where
  "DiscountResource_delete priv self discount_id w =
     check_then (check_scopes self (''DELETE /'' @ object_list_key self @ ''/:discount_id'') [''write_discounts''])
       (\<lambda>self. priv DELETE self (url self @ ''/'' @ discount_id) [] w) w"

definition DiscountResource_list ::
  "private_http \<Rightarrow> resource \<Rightarrow> json option \<Rightarrow> event list \<Rightarrow> outcome" where
  "DiscountResource_list priv self query w =
     check_then (check_scopes self (''GET /'' @ object_list_key self) [''read_discounts''])
       (\<lambda>self. priv GET self (url self) [query] w) w"

subsection \<open>\<open>AsyncBatchResource\<close> (v2)\<close>

definition AsyncBatchResource_create ::
  "private_http \<Rightarrow> resource \<Rightarrow> json option \<Rightarrow> event list \<Rightarrow> outcome" where
  "AsyncBatchResource_create priv self body w =
     check_then (check_scopes self (''POST /'' @ object_list_key self) [''write_batches''])
       (\<lambda>self. priv POST self (url self) [body] w) w"

definition AsyncBatchResource_create_task ::
  "private_http \<Rightarrow> resource \<Rightarrow> string \<Rightarrow> json option \<Rightarrow> event list \<Rightarrow> outcome" where
  "AsyncBatchResource_create_task priv self batch_id body w =
     check_then (check_scopes self (''POST /'' @ object_list_key self @ ''/:batch_id/tasks'') [''write_batches''])
       (\<lambda>self. priv POST self (url self @ ''/'' @ batch_id @ ''/tasks'') [body] w) w"

definition AsyncBatchResource_get ::
  "private_http \<Rightarrow> resource \<Rightarrow> string \<Rightarrow> event list \<Rightarrow> outcome" where
  "AsyncBatchResource_get priv self batch_id w =
     check_then (check_scopes self (''GET /'' @ object_list_key self @ ''/:batch_id'') [''read_batches''])
       (\<lambda>self. priv GET self (url self @ ''/'' @ batch_id) [] w) w"

definition AsyncBatchResource_list ::
  "private_http \<Rightarrow> resource \<Rightarrow> event list \<Rightarrow> outcome" where
  "AsyncBatchResource_list priv self w =
     check_then (check_scopes self (''GET /'' @ object_list_key self) [''read_batches''])
       (\<lambda>self. priv GET self (url self) [] w) w"

definition AsyncBatchResource_list_tasks ::
  "private_http \<Rightarrow> resource \<Rightarrow> string \<Rightarrow> event list \<Rightarrow> outcome" where
  "AsyncBatchResource_list_tasks priv self batch_id w =
     check_then (check_scopes self (''GET /'' @ object_list_key self @ ''/:batch_id/tasks'') [''read_batches''])
       (\<lambda>self. priv GET self (url self @ ''/'' @ batch_id @ ''/tasks'') [] w) w"

definition AsyncBatchResource_process ::
  "private_http \<Rightarrow> resource \<Rightarrow> string \<Rightarrow> event list \<Rightarrow> outcome" where
  "AsyncBatchResource_process priv self batch_id w =
     check_then (check_scopes self (''POST /'' @ object_list_key self @ ''/:batch_id/process'') [''write_batches''])
       (\<lambda>self. priv POST self (url self @ ''/'' @ batch_id @ ''/process'') [None] w) w"

section \<open>Callers\<close>

text \<open>
  A call of a public method by a user of the library: the method and its arguments.
  \<open>invoke\<close> runs the call on a resource object.
\<close>

datatype call =
    Address_create string "json option"
  | Address_get string
  | Address_update string "json option"
  | Address_delete string
  | Address_list string "json option"
  | Address_count "json option"
  | Address_validate "json option"
  | Address_apply_discount string "json option"
  | Address_remove_discount string
  | Product_create "json option"
  | Product_get string
  | Product_update string "json option"
  | Product_delete string
  | Product_list "json option"
  | Product_count
  | Discount_create "json option"
  | Discount_get string
  | Discount_update string "json option"
  | Discount_delete string
  | Discount_list "json option"
  | AsyncBatch_create "json option"
  | AsyncBatch_create_task string "json option"
  | AsyncBatch_get string
  | AsyncBatch_list
  | AsyncBatch_list_tasks string
  | AsyncBatch_process string

fun invoke :: "nat \<Rightarrow> server \<Rightarrow> private_http \<Rightarrow> resource \<Rightarrow> call \<Rightarrow> event list \<Rightarrow> outcome" where
  "invoke depth srv priv self (Address_create customer_id body) w =
     AddressResource_create depth srv self customer_id body w"
| "invoke depth srv priv self (Address_get address_id) w =
     AddressResource_get depth srv self address_id w"
| "invoke depth srv priv self (Address_update address_id body) w =
     AddressResource_update depth srv self address_id body w"
| "invoke depth srv priv self (Address_delete address_id) w =
     AddressResource_delete depth srv self address_id w"
| "invoke depth srv priv self (Address_list customer_id query) w =
     AddressResource_list depth srv self customer_id query w"
| "invoke depth srv priv self (Address_count query) w =
     AddressResource_count depth srv self query w"
| "invoke depth srv priv self (Address_validate body) w =
     AddressResource_validate depth srv self body w"
| "invoke depth srv priv self (Address_apply_discount address_id body) w =
     AddressResource_apply_discount depth srv self address_id body w"
| "invoke depth srv priv self (Address_remove_discount address_id) w =
     AddressResource_remove_discount depth srv self address_id w"
| "invoke depth srv priv self (Product_create body) w =
     ProductResource_create depth srv self body w"
| "invoke depth srv priv self (Product_get product_id) w =
     ProductResource_get depth srv self product_id w"
| "invoke depth srv priv self (Product_update product_id body) w =
     ProductResource_update depth srv self product_id body w"
| "invoke depth srv priv self (Product_delete product_id) w =
     ProductResource_delete depth srv self product_id w"
| "invoke depth srv priv self (Product_list query) w =
     ProductResource_list depth srv self query w"
| "invoke depth srv priv self Product_count w =
     ProductResource_count depth srv self w"
| "invoke depth srv priv self (Discount_create body) w =
     DiscountResource_create priv self body w"
| "invoke depth srv priv self (Discount_get discount_id) w =
     DiscountResource_get priv self discount_id w"
| "invoke depth srv priv self (Discount_update discount_id body) w =
     DiscountResource_update priv self discount_id body w"
| "invoke depth srv priv self (Discount_delete discount_id) w =
     DiscountResource_delete priv self discount_id w"
| "invoke depth srv priv self (Discount_list query) w =
     DiscountResource_list priv self query w"
| "invoke depth srv priv self (AsyncBatch_create body) w =
     AsyncBatchResource_create priv self body w"
| "invoke depth srv priv self (AsyncBatch_create_task batch_id body) w =
     AsyncBatchResource_create_task priv self batch_id body w"
| "invoke depth srv priv self (AsyncBatch_get batch_id) w =
     AsyncBatchResource_get priv self batch_id w"
| "invoke depth srv priv self AsyncBatch_list w =
     AsyncBatchResource_list priv self w"
| "invoke depth srv priv self (AsyncBatch_list_tasks batch_id) w =
     AsyncBatchResource_list_tasks priv self batch_id w"
| "invoke depth srv priv self (AsyncBatch_process batch_id) w =
     AsyncBatchResource_process priv self batch_id w"

text \<open>
  The endpoint label and the list \<open>required_scopes\<close> that the source of each method
  writes in its \<open>check_scopes\<close> statement; \<open>None\<close> for the one method that has no such
  statement.
\<close>

fun declared :: "resource \<Rightarrow> call \<Rightarrow> (string \<times> scope list) option" where
  "declared self (Address_create customer_id body) =
     Some (''POST /customers/:customer_id/addresses'', [''write_customers''])"
| "declared self (Address_get address_id) =
     Some (''GET '' @ object_list_key self @ ''/:address_id'', [''read_customers''])"
| "declared self (Address_update address_id body) =
     Some (''PUT '' @ object_list_key self @ ''/:id'', [''write_customers''])"
| "declared self (Address_delete address_id) =
     Some (''DELETE '' @ object_list_key self @ ''/:address_id'', [''write_customers''])"
| "declared self (Address_list customer_id query) =
     Some (''GET /customers/:customer_id/'' @ object_list_key self, [''read_customers''])"
| "declared self (Address_count query) = Some (''GET /addresses/count'', [''read_customers''])"
| "declared self (Address_validate body) = None"
| "declared self (Address_apply_discount address_id body) =
     Some (''POST /addresses/:address_id/apply_discount'', [''write_discounts''])"
| "declared self (Address_remove_discount address_id) =
     Some (''POST /addresses/:address_id/remove_discount'', [''write_discounts''])"
| "declared self (Product_create body) = Some (''POST /products'', [''write_products''])"
| "declared self (Product_get product_id) =
     Some (''GET /products/'' @ product_id, [''read_products''])"
| "declared self (Product_update product_id body) =
     Some (''PUT /products/'' @ product_id, [''write_products''])"
| "declared self (Product_delete product_id) =
     Some (''DELETE /products/'' @ product_id, [''write_products''])"
| "declared self (Product_list query) = Some (''GET /products'', [''read_products''])"
| "declared self Product_count = Some (''GET /products/count'', [''read_products''])"
| "declared self (Discount_create body) =
     Some (''POST /'' @ object_list_key self, [''write_discounts''])"
| "declared self (Discount_get discount_id) =
     Some (''GET /'' @ object_list_key self @ ''/:discount_id'', [''read_discounts''])"
| "declared self (Discount_update discount_id body) =
     Some (''PUT /'' @ object_list_key self @ ''/:discount_id'', [''write_discounts''])"
| "declared self (Discount_delete discount_id) =
     Some (''DELETE /'' @ object_list_key self @ ''/:discount_id'', [''write_discounts''])"
| "declared self (Discount_list query) =
     Some (''GET /'' @ object_list_key self, [''read_discounts''])"
| "declared self (AsyncBatch_create body) =
     Some (''POST /'' @ object_list_key self, [''write_batches''])"
| "declared self (AsyncBatch_create_task batch_id body) =
     Some (''POST /'' @ object_list_key self @ ''/:batch_id/tasks'', [''write_batches''])"
| "declared self (AsyncBatch_get batch_id) =
     Some (''GET /'' @ object_list_key self @ ''/:batch_id'', [''read_batches''])"
| "declared self AsyncBatch_list =
     Some (''GET /'' @ object_list_key self, [''read_batches''])"
| "declared self (AsyncBatch_list_tasks batch_id) =
     Some (''GET /'' @ object_list_key self @ ''/:batch_id/tasks'', [''read_batches''])"
| "declared self (AsyncBatch_process batch_id) =
     Some (''POST /'' @ object_list_key self @ ''/:batch_id/process'', [''write_batches''])"

text \<open>
  \<open>later s s'\<close>: the object \<open>s'\<close> is \<open>s\<close> after any number of further \<open>check_scopes\<close> calls,
  each of which returned or raised. No other statement of the source assigns to
  \<open>scopes\<close> or \<open>allowed_endpoints\<close> after \<open>__init__\<close>.
\<close>

inductive later :: "resource \<Rightarrow> resource \<Rightarrow> bool" where
  now: "later s s"
| step: "later s s1 \<Longrightarrow> later s (snd (check_scopes s1 endpoint required_scopes))"

section \<open>Reading a trace\<close>

text \<open>The requests sent, the statuses received and the sleeps, each in order.\<close>

primrec requests_of :: "event list \<Rightarrow> request list" where
  "requests_of [] = []"
| "requests_of (e # es) =
     (case e of Exchange rq rsp \<Rightarrow> rq # requests_of es | Sleep d \<Rightarrow> requests_of es
      | LogInfo s \<Rightarrow> requests_of es)"

primrec statuses_of :: "event list \<Rightarrow> int list" where
  "statuses_of [] = []"
| "statuses_of (e # es) =
     (case e of Exchange rq rsp \<Rightarrow> status_code rsp # statuses_of es | Sleep d \<Rightarrow> statuses_of es
      | LogInfo s \<Rightarrow> statuses_of es)"

primrec sleeps_of :: "event list \<Rightarrow> nat list" where
  "sleeps_of [] = []"
| "sleeps_of (e # es) =
     (case e of Exchange rq rsp \<Rightarrow> sleeps_of es | Sleep d \<Rightarrow> d # sleeps_of es
      | LogInfo s \<Rightarrow> sleeps_of es)"

text \<open>The request a verb sends for a URL, query parameters and a body.\<close>

definition sent :: "verb \<Rightarrow> resource \<Rightarrow> string \<Rightarrow> json option \<Rightarrow> json option \<Rightarrow> request" where
  "sent v self u query body =
     \<lparr>req_verb = v, req_url = u, req_params = query, req_json = body,
      req_headers = headers self\<rparr>"

text \<open>The number of responses with status 429 in a trace.\<close>

definition rate_limited :: "event list \<Rightarrow> nat" where
  "rate_limited es = length (filter (\<lambda>c. c = 429) (statuses_of es))"

text \<open>The scopes a token holds: none when \<open>scopes\<close> is \<open>None\<close>.\<close>

definition held_scopes :: "resource \<Rightarrow> scope list" where
  "held_scopes self = (case scopes self of None \<Rightarrow> [] | Some held \<Rightarrow> held)"

text \<open>The same server, answering every request with status 200 instead of its own.\<close>

definition as_success :: "server \<Rightarrow> server" where
  "as_success srv w rq = (srv w rq)\<lparr>status_code := 200\<rparr>"

section \<open>Sample environments\<close>

definition ok_response :: response where
  "ok_response = \<lparr>status_code = 200, limit_header = Some ''1/40'', json_body = Some (JObj [])\<rparr>"

definition busy_response :: response where
  "busy_response =
     \<lparr>status_code = 429, limit_header = Some ''40/40'',
      json_body = Some (JObj [(''error'', JStr ''too many requests'')])\<rparr>"

definition missing_response :: response where
  "missing_response =
     \<lparr>status_code = 404, limit_header = Some ''2/40'',
      json_body = Some (JObj [(''error'', JStr ''not found'')])\<rparr>"

text \<open>A server that answers its first \<open>k\<close> requests with 429 and every later one with 200.\<close>

definition busy_then_ok :: "nat \<Rightarrow> server" where
  "busy_then_ok k w rq = (if length (requests_of w) < k then busy_response else ok_response)"

text \<open>A server that answers every request with 404.\<close>

definition always_missing :: server where
  "always_missing w rq = missing_response"

text \<open>Resource objects: a token that may read products, and one that may write customers.\<close>

definition reader :: resource where
  "reader = init ''products'' (Some ''t0k3n'') True (Some [''read_products''])"

definition writer :: resource where
  "writer = init ''addresses'' (Some ''t0k3n'') False (Some [''write_customers''])"

text \<open>Private helpers that raise at once, as a missing attribute does.\<close>

definition no_helper :: private_http where
  "no_helper v self u args w = (Inl AttributeError, w)"

section \<open>Properties\<close>

subsection \<open>Reading a trace\<close>

lemma requests_of_append [simp]: "requests_of (a @ b) = requests_of a @ requests_of b"
  by (induction a) (simp_all split: event.splits)

lemma statuses_of_append [simp]: "statuses_of (a @ b) = statuses_of a @ statuses_of b"
  by (induction a) (simp_all split: event.splits)

lemma sleeps_of_append [simp]: "sleeps_of (a @ b) = sleeps_of a @ sleeps_of b"
  by (induction a) (simp_all split: event.splits)

lemma rate_limited_append [simp]: "rate_limited (a @ b) = rate_limited a + rate_limited b"
  by (simp add: rate_limited_def)

lemma rate_limited_simps [simp]:
  "rate_limited [] = 0"
  "rate_limited (Exchange rq rsp # es) =
     (if status_code rsp = 429 then Suc (rate_limited es) else rate_limited es)"
  "rate_limited (Sleep d # es) = rate_limited es"
  "rate_limited (LogInfo t # es) = rate_limited es"
  by (simp_all add: rate_limited_def)

lemma quiet_logged [simp]:
  "requests_of (logged self u rsp) = []"
  "statuses_of (logged self u rsp) = []"
  "sleeps_of (logged self u rsp) = []"
  "rate_limited (logged self u rsp) = 0"
  by (simp_all add: logged_def split: option.splits)

lemma log_logged:
  "log self u rsp w =
     (if debug self \<and> limit_header rsp = None then Inl KeyError else Inr (), w @ logged self u rsp)"
  by (simp add: log_def logged_def split: option.splits)

lemmas sample_defs =
  reader_def writer_def init_def busy_then_ok_def always_missing_def ok_response_def
  busy_response_def missing_response_def no_helper_def

lemma reader_facts:
  "debug reader" "headers reader = [(''Accept'', Some ''application/json''),
                 (''Content-Type'', Some ''application/json''),
                 (''X-Recharge-Access-Token'', Some ''t0k3n'')]"
  by (simp_all add: reader_def init_def)

subsection \<open>The scope check\<close>

text \<open>The loop collects exactly the required scopes that the token does not hold.\<close>

lemma collect_missing_filter:
  "collect_missing held required acc = acc @ filter (\<lambda>s. s \<notin> set held) required"
  by (induction required arbitrary: acc) simp_all

lemma check_scopes_approved:
  "endpoint \<in> set (allowed_endpoints s) \<Longrightarrow> check_scopes s endpoint r = (Inr (), s)"
  by (simp add: check_scopes_def)

lemma check_scopes_success_approves:
  "fst (check_scopes s endpoint r) = Inr () \<Longrightarrow>
   endpoint \<in> set (allowed_endpoints (snd (check_scopes s endpoint r)))"
  by (auto simp: check_scopes_def Let_def split: option.splits if_splits)

lemma check_scopes_keeps:
  "endpoint \<in> set (allowed_endpoints s) \<Longrightarrow>
   endpoint \<in> set (allowed_endpoints (snd (check_scopes s e r)))"
  by (auto simp: check_scopes_def Let_def split: option.splits if_splits)

lemma check_scopes_raise_unchanged:
  "fst (check_scopes s e r) = Inl x \<Longrightarrow> snd (check_scopes s e r) = s"
  by (auto simp: check_scopes_def Let_def split: option.splits if_splits)

lemma check_scopes_scopes: "scopes (snd (check_scopes s e r)) = scopes s"
  by (auto simp: check_scopes_def Let_def split: option.splits if_splits)

text \<open>Further checks never remove an approval and never change the scopes of the token.\<close>

lemma later_keeps:
  "later s s' \<Longrightarrow> endpoint \<in> set (allowed_endpoints s) \<Longrightarrow> endpoint \<in> set (allowed_endpoints s')"
  by (induction rule: later.induct) (simp_all add: check_scopes_keeps)

lemma later_scopes: "later s s' \<Longrightarrow> scopes s' = scopes s"
  by (induction rule: later.induct) (simp_all add: check_scopes_scopes)

lemma check_scopes_lacking:
  assumes "e \<notin> set (allowed_endpoints s)" and "\<not> set r \<subseteq> set (held_scopes s)"
  shows "check_scopes s e r =
           (Inl (if held_scopes s = [] then NoScopesFound
                 else MissingScopes e (filter (\<lambda>x. x \<notin> set (held_scopes s)) r)), s)"
    and "filter (\<lambda>x. x \<notin> set (held_scopes s)) r \<noteq> []"
proof -
  from assms(2) show ne: "filter (\<lambda>x. x \<notin> set (held_scopes s)) r \<noteq> []"
    by (auto simp: filter_empty_conv)
  with assms(1) show "check_scopes s e r =
           (Inl (if held_scopes s = [] then NoScopesFound
                 else MissingScopes e (filter (\<lambda>x. x \<notin> set (held_scopes s)) r)), s)"
    by (auto simp: check_scopes_def held_scopes_def collect_missing_filter Let_def
        split: option.splits)
qed

text \<open>
  A resource constructed with no scopes never approves an endpoint, so on such an object
  every endpoint stays outside the cache.
\<close>

lemma unscoped_never_approves:
  assumes "later (init key access_token dbg scs) s" and "scs = None \<or> scs = Some []"
  shows "allowed_endpoints s = []"
  using assms
proof (induction "init key access_token dbg scs" s rule: later.induct)
  case now
  then show ?case by (simp add: init_def)
next
  case (step s1 endpoint required_scopes)
  then have "scopes s1 = None \<or> scopes s1 = Some []"
    using later_scopes [of "init key access_token dbg scs" s1] by (simp add: init_def)
  with step show ?case
    by (auto simp: check_scopes_def)
qed

subsection \<open>Methods that check first\<close>

lemma check_then_rejected:
  "fst checked = Inl x \<Longrightarrow> check_then checked send w = (Inl x, w, snd checked)"
  by (cases checked) (simp add: check_then_def)


lemmas method_defs =
  AddressResource_create_def AddressResource_get_def AddressResource_update_def
  AddressResource_delete_def AddressResource_list_def AddressResource_count_def
  AddressResource_apply_discount_def AddressResource_remove_discount_def
  ProductResource_create_def ProductResource_get_def ProductResource_update_def
  ProductResource_delete_def ProductResource_list_def ProductResource_count_def
  DiscountResource_create_def DiscountResource_get_def DiscountResource_update_def
  DiscountResource_delete_def DiscountResource_list_def
  AsyncBatchResource_create_def AsyncBatchResource_create_task_def AsyncBatchResource_get_def
  AsyncBatchResource_list_def AsyncBatchResource_list_tasks_def AsyncBatchResource_process_def

text \<open>
  Every method with a declared endpoint is its \<open>check_scopes\<close> statement followed by one
  more statement.
\<close>

lemma invoke_checks_first:
  "declared s c = Some (e, r) \<Longrightarrow>
   \<exists>send. invoke depth srv priv s c w = check_then (check_scopes s e r) send w"
  by (cases c) (auto simp: method_defs)

lemma invoke_rejected:
  assumes "declared s c = Some (e, r)" and "fst (check_scopes s e r) = Inl x"
  shows "invoke depth srv priv s c w = (Inl x, w, s)"
proof -
  obtain send where "invoke depth srv priv s c w = check_then (check_scopes s e r) send w"
    using invoke_checks_first [OF assms(1)] by blast
  with assms(2) show ?thesis
    by (simp add: check_then_rejected check_scopes_raise_unchanged)
qed



subsection \<open>One step of each verb\<close>

text \<open>
  A call with recursion depth left sends one request, logs, and then either raises, retries
  or returns.
\<close>

lemma http_get_step:
  "http_get (Suc depth) srv self u q w =
     (let rq = sent GET self u q None;
          rsp = srv w rq;
          w1 = w @ Exchange rq rsp # logged self u rsp
      in if debug self \<and> limit_header rsp = None then (Inl KeyError, w1)
         else if status_code rsp = 429 then http_get depth srv self u None (w1 @ [Sleep 1])
         else (case json_body rsp of None \<Rightarrow> Inl JSONDecodeError | Some j \<Rightarrow> Inr (Parsed j), w1))"
  by (simp add: Let_def log_logged sent_def split: option.splits)

lemma http_put_step:
  "http_put (Suc depth) srv self u b q w =
     (let rq = sent PUT self u q b;
          rsp = srv w rq;
          w1 = w @ Exchange rq rsp # logged self u rsp
      in if debug self \<and> limit_header rsp = None then (Inl KeyError, w1)
         else if status_code rsp = 429 then http_put depth srv self u b None (w1 @ [Sleep 1])
         else (case json_body rsp of None \<Rightarrow> Inl JSONDecodeError | Some j \<Rightarrow> Inr (Parsed j), w1))"
  by (simp add: Let_def log_logged sent_def split: option.splits)

lemma http_post_step:
  "http_post (Suc depth) srv self u b q w =
     (let rq = sent POST self u q b;
          rsp = srv w rq;
          w1 = w @ Exchange rq rsp # logged self u rsp
      in if debug self \<and> limit_header rsp = None then (Inl KeyError, w1)
         else if status_code rsp = 429 then http_post depth srv self u b None (w1 @ [Sleep 1])
         else (case json_body rsp of None \<Rightarrow> Inl JSONDecodeError | Some j \<Rightarrow> Inr (Parsed j), w1))"
  by (simp add: Let_def log_logged sent_def split: option.splits)

lemma http_delete_step:
  "http_delete (Suc depth) srv self u b w =
     (let rq = sent DELETE self u None b;
          rsp = srv w rq
      in case limit_header rsp of
           None \<Rightarrow> (Inl KeyError, w @ [Exchange rq rsp, LogInfo u])
         | Some v \<Rightarrow>
             if status_code rsp = 429
             then http_delete depth srv self u None (w @ [Exchange rq rsp, LogInfo u, LogInfo v])
             else (Inr (Raw rsp), w @ [Exchange rq rsp, LogInfo u, LogInfo v]))"
  by (simp add: Let_def sent_def split: option.splits)




text \<open>
  The retries end in \<open>RecursionError\<close> only when every one of the \<open>depth\<close> requests was
  answered with 429: with more depth than the server has 429 responses, the call does not
  run out.
\<close>

lemma http_get_exhausted:
  "fst (http_get depth srv self u q w) = Inl RecursionError \<Longrightarrow>
   \<exists>new. snd (http_get depth srv self u q w) = w @ new \<and> rate_limited new = depth
         \<and> length (requests_of new) = depth"
proof (induction depth arbitrary: q w)
  case 0
  then show ?case by simp
next
  case (Suc depth)
  show ?case
    using Suc.prems
    by (auto simp: http_get_step Let_def simp del: http_get.simps dest!: Suc.IH
        split: if_splits option.splits)
qed

lemma http_put_exhausted:
  "fst (http_put depth srv self u b q w) = Inl RecursionError \<Longrightarrow>
   \<exists>new. snd (http_put depth srv self u b q w) = w @ new \<and> rate_limited new = depth
         \<and> length (requests_of new) = depth"
proof (induction depth arbitrary: q w)
  case 0
  then show ?case by simp
next
  case (Suc depth)
  show ?case
    using Suc.prems
    by (auto simp: http_put_step Let_def simp del: http_put.simps dest!: Suc.IH
        split: if_splits option.splits)
qed

lemma http_post_exhausted:
  "fst (http_post depth srv self u b q w) = Inl RecursionError \<Longrightarrow>
   \<exists>new. snd (http_post depth srv self u b q w) = w @ new \<and> rate_limited new = depth
         \<and> length (requests_of new) = depth"
proof (induction depth arbitrary: q w)
  case 0
  then show ?case by simp
next
  case (Suc depth)
  show ?case
    using Suc.prems
    by (auto simp: http_post_step Let_def simp del: http_post.simps dest!: Suc.IH
        split: if_splits option.splits)
qed

text \<open>The trace only grows; \<open>http_delete\<close> adds no sleep to it.\<close>

lemma http_get_extends: "\<exists>new. snd (http_get depth srv self u q w) = w @ new"
proof (induction depth arbitrary: q w)
  case 0
  then show ?case by simp
next
  case (Suc depth)
  obtain new where
    "snd (http_get depth srv self u None
       ((w @ Exchange (sent GET self u q None) (srv w (sent GET self u q None))
           # logged self u (srv w (sent GET self u q None))) @ [Sleep 1]))
     = ((w @ Exchange (sent GET self u q None) (srv w (sent GET self u q None))
           # logged self u (srv w (sent GET self u q None))) @ [Sleep 1]) @ new"
    using Suc.IH by blast
  then show ?case
    by (simp add: http_get_step Let_def del: http_get.simps)
qed

lemma http_put_extends: "\<exists>new. snd (http_put depth srv self u b q w) = w @ new"
proof (induction depth arbitrary: q w)
  case 0
  then show ?case by simp
next
  case (Suc depth)
  obtain new where
    "snd (http_put depth srv self u b None
       ((w @ Exchange (sent PUT self u q b) (srv w (sent PUT self u q b))
           # logged self u (srv w (sent PUT self u q b))) @ [Sleep 1]))
     = ((w @ Exchange (sent PUT self u q b) (srv w (sent PUT self u q b))
           # logged self u (srv w (sent PUT self u q b))) @ [Sleep 1]) @ new"
    using Suc.IH by blast
  then show ?case
    by (simp add: http_put_step Let_def del: http_put.simps)
qed

lemma http_post_extends: "\<exists>new. snd (http_post depth srv self u b q w) = w @ new"
proof (induction depth arbitrary: q w)
  case 0
  then show ?case by simp
next
  case (Suc depth)
  obtain new where
    "snd (http_post depth srv self u b None
       ((w @ Exchange (sent POST self u q b) (srv w (sent POST self u q b))
           # logged self u (srv w (sent POST self u q b))) @ [Sleep 1]))
     = ((w @ Exchange (sent POST self u q b) (srv w (sent POST self u q b))
           # logged self u (srv w (sent POST self u q b))) @ [Sleep 1]) @ new"
    using Suc.IH by blast
  then show ?case
    by (simp add: http_post_step Let_def del: http_post.simps)
qed

lemma http_delete_extends:
  "\<exists>new. snd (http_delete depth srv self u b w) = w @ new \<and> sleeps_of new = []"
proof (induction depth arbitrary: b w)
  case 0
  then show ?case by simp
next
  case (Suc depth)
  show ?case
  proof (cases "limit_header (srv w (sent DELETE self u None b))")
    case None
    then show ?thesis
      by (simp add: http_delete_step Let_def del: http_delete.simps)
  next
    case (Some v)
    obtain new where
      "snd (http_delete depth srv self u None
         (w @ [Exchange (sent DELETE self u None b) (srv w (sent DELETE self u None b)),
               LogInfo u, LogInfo v]))
       = (w @ [Exchange (sent DELETE self u None b) (srv w (sent DELETE self u None b)),
               LogInfo u, LogInfo v]) @ new" "sleeps_of new = []"
      using Suc.IH by blast
    with Some show ?thesis
      by (simp add: http_delete_step Let_def del: http_delete.simps)
  qed
qed

text \<open>A call with depth left sends its own request first.\<close>

lemma http_get_first:
  "\<exists>new rest. snd (http_get (Suc depth) srv self u q w) = w @ new
      \<and> requests_of new = sent GET self u q None # rest"
proof -
  let ?rq = "sent GET self u q None"
  let ?w1 = "w @ Exchange ?rq (srv w ?rq) # logged self u (srv w ?rq)"
  obtain new where "snd (http_get depth srv self u None (?w1 @ [Sleep 1])) = (?w1 @ [Sleep 1]) @ new"
    using http_get_extends by blast
  then show ?thesis
    by (simp add: http_get_step Let_def del: http_get.simps)
qed

lemma http_put_first:
  "\<exists>new rest. snd (http_put (Suc depth) srv self u b q w) = w @ new
      \<and> requests_of new = sent PUT self u q b # rest"
proof -
  let ?rq = "sent PUT self u q b"
  let ?w1 = "w @ Exchange ?rq (srv w ?rq) # logged self u (srv w ?rq)"
  obtain new where "snd (http_put depth srv self u b None (?w1 @ [Sleep 1])) = (?w1 @ [Sleep 1]) @ new"
    using http_put_extends by blast
  then show ?thesis
    by (simp add: http_put_step Let_def del: http_put.simps)
qed

lemma http_post_first:
  "\<exists>new rest. snd (http_post (Suc depth) srv self u b q w) = w @ new
      \<and> requests_of new = sent POST self u q b # rest"
proof -
  let ?rq = "sent POST self u q b"
  let ?w1 = "w @ Exchange ?rq (srv w ?rq) # logged self u (srv w ?rq)"
  obtain new where "snd (http_post depth srv self u b None (?w1 @ [Sleep 1])) = (?w1 @ [Sleep 1]) @ new"
    using http_post_extends by blast
  then show ?thesis
    by (simp add: http_post_step Let_def del: http_post.simps)
qed

lemma http_delete_first:
  "\<exists>new rest. snd (http_delete (Suc depth) srv self u b w) = w @ new
      \<and> requests_of new = sent DELETE self u None b # rest"
proof (cases "limit_header (srv w (sent DELETE self u None b))")
  case None
  then show ?thesis
    by (simp add: http_delete_step Let_def del: http_delete.simps)
next
  case (Some v)
  let ?rq = "sent DELETE self u None b"
  let ?w1 = "w @ [Exchange ?rq (srv w ?rq), LogInfo u, LogInfo v]"
  obtain new where "snd (http_delete depth srv self u None ?w1) = ?w1 @ new"
    using http_delete_extends by blast
  with Some show ?thesis
    by (simp add: http_delete_step Let_def del: http_delete.simps)
qed

text \<open>\<open>http_delete\<close> never returns a parsed body.\<close>

lemma http_delete_never_parsed: "fst (http_delete depth srv self u b w) \<noteq> Inr (Parsed j)"
proof (induction depth arbitrary: b w)
  case 0
  then show ?case by simp
next
  case (Suc depth)
  then show ?case
    by (simp add: http_delete_step Let_def del: http_delete.simps split: option.splits)
qed

section \<open>The claims\<close>

subsection \<open>Retrying on 429\<close>




text \<open>
  C3 at a DELETE. The claim asks of every verb that a retry after 429 is preceded by a
  sleep. \<open>http_delete\<close>, answered 429 and then 200, sends its second request right after
  logging the first response: the trace of the call has no sleep in it.
\<close>

theorem http_delete_retries_without_sleep:
  "http_delete 2 (busy_then_ok 1) writer ''https://api.rechargeapps.com/addresses/7'' None []
     = (Inr (Raw ok_response),
        [Exchange (sent DELETE writer ''https://api.rechargeapps.com/addresses/7'' None None)
           busy_response,
         LogInfo ''https://api.rechargeapps.com/addresses/7'', LogInfo ''40/40'',
         Exchange (sent DELETE writer ''https://api.rechargeapps.com/addresses/7'' None None)
           ok_response,
         LogInfo ''https://api.rechargeapps.com/addresses/7'', LogInfo ''1/40''])
   \<and> sleeps_of (snd (http_delete 2 (busy_then_ok 1) writer
                        ''https://api.rechargeapps.com/addresses/7'' None [])) = []"
  by (simp add: eval_nat_numeral sent_def sample_defs Let_def)

text \<open>
  C8: the retry is not the original request. After a 429 response (and logging that does
  not raise), the second request of \<open>http_get\<close>, \<open>http_put\<close> and \<open>http_post\<close> is the first
  one without its query parameters, and the second request of \<open>http_delete\<close> is the first
  one without its body.
\<close>

theorem retry_drops_query:
  "(status_code (srv w (sent GET self u q None)) = 429
      \<and> fst (log self u (srv w (sent GET self u q None)) w) = Inr ()
    \<longrightarrow> (\<exists>new rest. snd (http_get (Suc (Suc depth)) srv self u q w) = w @ new
          \<and> requests_of new = sent GET self u q None # sent GET self u None None # rest))
   \<and> (status_code (srv w (sent PUT self u q b)) = 429
      \<and> fst (log self u (srv w (sent PUT self u q b)) w) = Inr ()
    \<longrightarrow> (\<exists>new rest. snd (http_put (Suc (Suc depth)) srv self u b q w) = w @ new
          \<and> requests_of new = sent PUT self u q b # sent PUT self u None b # rest))
   \<and> (status_code (srv w (sent POST self u q b)) = 429
      \<and> fst (log self u (srv w (sent POST self u q b)) w) = Inr ()
    \<longrightarrow> (\<exists>new rest. snd (http_post (Suc (Suc depth)) srv self u b q w) = w @ new
          \<and> requests_of new = sent POST self u q b # sent POST self u None b # rest))
   \<and> (status_code (srv w (sent DELETE self u None b)) = 429
      \<and> limit_header (srv w (sent DELETE self u None b)) \<noteq> None
    \<longrightarrow> (\<exists>new rest. snd (http_delete (Suc (Suc depth)) srv self u b w) = w @ new
          \<and> requests_of new = sent DELETE self u None b # sent DELETE self u None None # rest))"
proof (intro conjI impI)
  let ?rq = "sent GET self u q None"
  let ?w1 = "(w @ Exchange ?rq (srv w ?rq) # logged self u (srv w ?rq)) @ [Sleep 1]"
  assume a: "status_code (srv w ?rq) = 429 \<and> fst (log self u (srv w ?rq) w) = Inr ()"
  then have ok: "\<not> (debug self \<and> limit_header (srv w ?rq) = None)"
    by (auto simp: log_logged split: if_splits)
  obtain new rest where "snd (http_get (Suc depth) srv self u None ?w1) = ?w1 @ new"
    "requests_of new = sent GET self u None None # rest"
    using http_get_first by blast
  with a ok show "\<exists>new rest. snd (http_get (Suc (Suc depth)) srv self u q w) = w @ new
          \<and> requests_of new = ?rq # sent GET self u None None # rest"
    by (subst http_get_step) (simp add: Let_def del: http_get.simps)
next
  let ?rq = "sent PUT self u q b"
  let ?w1 = "(w @ Exchange ?rq (srv w ?rq) # logged self u (srv w ?rq)) @ [Sleep 1]"
  assume a: "status_code (srv w ?rq) = 429 \<and> fst (log self u (srv w ?rq) w) = Inr ()"
  then have ok: "\<not> (debug self \<and> limit_header (srv w ?rq) = None)"
    by (auto simp: log_logged split: if_splits)
  obtain new rest where "snd (http_put (Suc depth) srv self u b None ?w1) = ?w1 @ new"
    "requests_of new = sent PUT self u None b # rest"
    using http_put_first by blast
  with a ok show "\<exists>new rest. snd (http_put (Suc (Suc depth)) srv self u b q w) = w @ new
          \<and> requests_of new = ?rq # sent PUT self u None b # rest"
    by (subst http_put_step) (simp add: Let_def del: http_put.simps)
next
  let ?rq = "sent POST self u q b"
  let ?w1 = "(w @ Exchange ?rq (srv w ?rq) # logged self u (srv w ?rq)) @ [Sleep 1]"
  assume a: "status_code (srv w ?rq) = 429 \<and> fst (log self u (srv w ?rq) w) = Inr ()"
  then have ok: "\<not> (debug self \<and> limit_header (srv w ?rq) = None)"
    by (auto simp: log_logged split: if_splits)
  obtain new rest where "snd (http_post (Suc depth) srv self u b None ?w1) = ?w1 @ new"
    "requests_of new = sent POST self u None b # rest"
    using http_post_first by blast
  with a ok show "\<exists>new rest. snd (http_post (Suc (Suc depth)) srv self u b q w) = w @ new
          \<and> requests_of new = ?rq # sent POST self u None b # rest"
    by (subst http_post_step) (simp add: Let_def del: http_post.simps)
next
  let ?rq = "sent DELETE self u None b"
  assume a: "status_code (srv w ?rq) = 429 \<and> limit_header (srv w ?rq) \<noteq> None"
  then obtain v where v: "limit_header (srv w ?rq) = Some v"
    by auto
  let ?w1 = "w @ [Exchange ?rq (srv w ?rq), LogInfo u, LogInfo v]"
  obtain new rest where "snd (http_delete (Suc depth) srv self u None ?w1) = ?w1 @ new"
    "requests_of new = sent DELETE self u None None # rest"
    using http_delete_first by blast
  with a v show "\<exists>new rest. snd (http_delete (Suc (Suc depth)) srv self u b w) = w @ new
          \<and> requests_of new = ?rq # sent DELETE self u None None # rest"
    by (subst http_delete_step) (simp add: Let_def del: http_delete.simps)
qed

theorem retry_drops_query_witness:
  "requests_of (snd (http_get 2 (busy_then_ok 1) reader ''/products''
                       (Some (JObj [(''limit'', JNum 5)])) []))
     = [sent GET reader ''/products'' (Some (JObj [(''limit'', JNum 5)])) None,
        sent GET reader ''/products'' None None]
   \<and> requests_of (snd (http_put 2 (busy_then_ok 1) reader ''/products''
                       (Some (JObj [])) (Some (JObj [(''limit'', JNum 5)])) []))
     = [sent PUT reader ''/products'' (Some (JObj [(''limit'', JNum 5)])) (Some (JObj [])),
        sent PUT reader ''/products'' None (Some (JObj []))]
   \<and> requests_of (snd (http_post 2 (busy_then_ok 1) reader ''/products''
                       (Some (JObj [])) (Some (JObj [(''limit'', JNum 5)])) []))
     = [sent POST reader ''/products'' (Some (JObj [(''limit'', JNum 5)])) (Some (JObj [])),
        sent POST reader ''/products'' None (Some (JObj []))]
   \<and> requests_of (snd (http_delete 2 (busy_then_ok 1) reader ''/products'' (Some (JObj [])) []))
     = [sent DELETE reader ''/products'' None (Some (JObj [])),
        sent DELETE reader ''/products'' None None]"
proof -
  let ?query = "Some (JObj [(''limit'', JNum 5)])"
  let ?body = "Some (JObj [])"
  have h: "status_code (busy_then_ok 1 [] (sent GET reader ''/products'' ?query None)) = 429
         \<and> fst (log reader ''/products'' (busy_then_ok 1 [] (sent GET reader ''/products'' ?query None)) [])
           = Inr ()"
    "status_code (busy_then_ok 1 [] (sent PUT reader ''/products'' ?query ?body)) = 429
         \<and> fst (log reader ''/products'' (busy_then_ok 1 [] (sent PUT reader ''/products'' ?query ?body)) [])
           = Inr ()"
    "status_code (busy_then_ok 1 [] (sent POST reader ''/products'' ?query ?body)) = 429
         \<and> fst (log reader ''/products'' (busy_then_ok 1 [] (sent POST reader ''/products'' ?query ?body)) [])
           = Inr ()"
    "status_code (busy_then_ok 1 [] (sent DELETE reader ''/products'' None ?body)) = 429
         \<and> limit_header (busy_then_ok 1 [] (sent DELETE reader ''/products'' None ?body)) \<noteq> None"
    by (simp_all add: busy_then_ok_def busy_response_def log_def reader_facts)
  have e: "length (requests_of (snd (http_get 2 (busy_then_ok 1) reader ''/products'' ?query []))) = 2"
    "length (requests_of (snd (http_put 2 (busy_then_ok 1) reader ''/products'' ?body ?query []))) = 2"
    "length (requests_of (snd (http_post 2 (busy_then_ok 1) reader ''/products'' ?body ?query []))) = 2"
    "length (requests_of (snd (http_delete 2 (busy_then_ok 1) reader ''/products'' ?body []))) = 2"
    by (simp_all add: eval_nat_numeral log_def sample_defs Let_def)
  from h retry_drops_query [of "busy_then_ok 1" "[]" reader "''/products''" ?query 0 ?body]
  have "(\<exists>rest. requests_of (snd (http_get 2 (busy_then_ok 1) reader ''/products'' ?query []))
           = sent GET reader ''/products'' ?query None # sent GET reader ''/products'' None None # rest)
      \<and> (\<exists>rest. requests_of (snd (http_put 2 (busy_then_ok 1) reader ''/products'' ?body ?query []))
           = sent PUT reader ''/products'' ?query ?body # sent PUT reader ''/products'' None ?body # rest)
      \<and> (\<exists>rest. requests_of (snd (http_post 2 (busy_then_ok 1) reader ''/products'' ?body ?query []))
           = sent POST reader ''/products'' ?query ?body # sent POST reader ''/products'' None ?body # rest)
      \<and> (\<exists>rest. requests_of (snd (http_delete 2 (busy_then_ok 1) reader ''/products'' ?body []))
           = sent DELETE reader ''/products'' None ?body # sent DELETE reader ''/products'' None None # rest)"
    by (simp add: numeral_2_eq_2 del: http_get.simps http_put.simps http_post.simps http_delete.simps)
  with e show ?thesis
    by auto
qed

subsection \<open>Other statuses\<close>

text \<open>
  C7: a response whose status is not 429 is neither retried nor turned into an exception
  because of its status. \<open>http_get\<close>, \<open>http_put\<close> and \<open>http_post\<close> send one request, log,
  and return the parsed body; what they return or raise does not mention the status, and
  is what they return or raise when the same server answers with status 200.
\<close>

theorem status_passthrough:
  "(status_code (srv w (sent GET self u q None)) \<noteq> 429
    \<longrightarrow> http_get (Suc depth) srv self u q w
          = (if debug self \<and> limit_header (srv w (sent GET self u q None)) = None
             then Inl KeyError
             else (case json_body (srv w (sent GET self u q None)) of
                     None \<Rightarrow> Inl JSONDecodeError | Some j \<Rightarrow> Inr (Parsed j)),
             w @ Exchange (sent GET self u q None) (srv w (sent GET self u q None))
                 # logged self u (srv w (sent GET self u q None)))
        \<and> fst (http_get (Suc depth) srv self u q w)
          = fst (http_get (Suc depth) (as_success srv) self u q w))
   \<and> (status_code (srv w (sent PUT self u q b)) \<noteq> 429
    \<longrightarrow> http_put (Suc depth) srv self u b q w
          = (if debug self \<and> limit_header (srv w (sent PUT self u q b)) = None
             then Inl KeyError
             else (case json_body (srv w (sent PUT self u q b)) of
                     None \<Rightarrow> Inl JSONDecodeError | Some j \<Rightarrow> Inr (Parsed j)),
             w @ Exchange (sent PUT self u q b) (srv w (sent PUT self u q b))
                 # logged self u (srv w (sent PUT self u q b)))
        \<and> fst (http_put (Suc depth) srv self u b q w)
          = fst (http_put (Suc depth) (as_success srv) self u b q w))
   \<and> (status_code (srv w (sent POST self u q b)) \<noteq> 429
    \<longrightarrow> http_post (Suc depth) srv self u b q w
          = (if debug self \<and> limit_header (srv w (sent POST self u q b)) = None
             then Inl KeyError
             else (case json_body (srv w (sent POST self u q b)) of
                     None \<Rightarrow> Inl JSONDecodeError | Some j \<Rightarrow> Inr (Parsed j)),
             w @ Exchange (sent POST self u q b) (srv w (sent POST self u q b))
                 # logged self u (srv w (sent POST self u q b)))
        \<and> fst (http_post (Suc depth) srv self u b q w)
          = fst (http_post (Suc depth) (as_success srv) self u b q w))"
  by (simp add: http_get_step http_put_step http_post_step Let_def as_success_def
        del: http_get.simps http_put.simps http_post.simps)

theorem status_passthrough_witness:
  "http_get 1 always_missing reader ''/products/9'' None []
     = (Inr (Parsed (JObj [(''error'', JStr ''not found'')])),
        [Exchange (sent GET reader ''/products/9'' None None) missing_response,
         LogInfo ''/products/9'', LogInfo ''2/40''])
   \<and> http_put 1 always_missing reader ''/products/9'' (Some (JObj [])) None []
     = (Inr (Parsed (JObj [(''error'', JStr ''not found'')])),
        [Exchange (sent PUT reader ''/products/9'' None (Some (JObj []))) missing_response,
         LogInfo ''/products/9'', LogInfo ''2/40''])
   \<and> http_post 1 always_missing reader ''/products/9'' (Some (JObj [])) None []
     = (Inr (Parsed (JObj [(''error'', JStr ''not found'')])),
        [Exchange (sent POST reader ''/products/9'' None (Some (JObj []))) missing_response,
         LogInfo ''/products/9'', LogInfo ''2/40''])"
proof -
  have h: "status_code (always_missing [] (sent GET reader ''/products/9'' None None)) \<noteq> 429"
    "status_code (always_missing [] (sent PUT reader ''/products/9'' None (Some (JObj [])))) \<noteq> 429"
    "status_code (always_missing [] (sent POST reader ''/products/9'' None (Some (JObj [])))) \<noteq> 429"
    by (simp_all add: always_missing_def missing_response_def)
  have l: "logged reader ''/products/9'' missing_response
             = [LogInfo ''/products/9'', LogInfo ''2/40'']"
    "limit_header missing_response = Some ''2/40''"
    "json_body missing_response = Some (JObj [(''error'', JStr ''not found'')])"
    by (simp_all add: logged_def reader_facts missing_response_def)
  show ?thesis
    using h status_passthrough [of always_missing "[]" reader "''/products/9''" None 0 "Some (JObj [])"]
    by (simp add: l always_missing_def del: http_get.simps http_put.simps http_post.simps)
qed

text \<open>
  C6 at a DELETE. The claim asks of every method, the DELETE ones too, that it returns the
  parsed JSON body of the final response. \<open>AddressResource.delete\<close>, answered 200 with the
  body \<open>{}\<close>, returns the response object, not the parsed body.
\<close>

theorem delete_returns_response_object:
  "fst (AddressResource_delete 1 (busy_then_ok 0) writer ''7'' []) = Inr (Raw ok_response)
   \<and> json_body ok_response = Some (JObj [])
   \<and> fst (AddressResource_delete 1 (busy_then_ok 0) writer ''7'' []) \<noteq> Inr (Parsed (JObj []))"
  by (simp add: AddressResource_delete_def check_then_def check_scopes_def url_def base_url_def
      sample_defs Let_def)

subsection \<open>Scopes\<close>

text \<open>
  C2, as the code has it. When the endpoint is not approved and the token lacks one of
  the required scopes, \<open>check_scopes\<close> raises and leaves the object as it was, and a method
  that declares this endpoint and these scopes raises the same error without sending
  anything. The error names the missing scopes when the token holds some scope; when it
  holds none (\<open>None\<close> or the empty list) the error is \<open>No scopes found for token.\<close>, which
  names no scope.
\<close>

theorem missing_scope_rejected:
  assumes "e \<notin> set (allowed_endpoints s)" and "\<not> set r \<subseteq> set (held_scopes s)"
  shows "check_scopes s e r =
           (Inl (if held_scopes s = [] then NoScopesFound
                 else MissingScopes e (filter (\<lambda>x. x \<notin> set (held_scopes s)) r)), s)
         \<and> filter (\<lambda>x. x \<notin> set (held_scopes s)) r \<noteq> []
         \<and> (declared s c = Some (e, r) \<longrightarrow>
              invoke depth srv priv s c w =
                (Inl (if held_scopes s = [] then NoScopesFound
                      else MissingScopes e (filter (\<lambda>x. x \<notin> set (held_scopes s)) r)), w, s))"
proof (intro conjI impI)
  show raised: "check_scopes s e r =
           (Inl (if held_scopes s = [] then NoScopesFound
                 else MissingScopes e (filter (\<lambda>x. x \<notin> set (held_scopes s)) r)), s)"
    using assms by (rule check_scopes_lacking)
  show "filter (\<lambda>x. x \<notin> set (held_scopes s)) r \<noteq> []"
    using assms by (rule check_scopes_lacking)
  assume "declared s c = Some (e, r)"
  then show "invoke depth srv priv s c w =
                (Inl (if held_scopes s = [] then NoScopesFound
                      else MissingScopes e (filter (\<lambda>x. x \<notin> set (held_scopes s)) r)), w, s)"
    by (rule invoke_rejected) (simp add: raised)
qed

theorem missing_scope_rejected_witness:
  "check_scopes reader ''POST /products'' [''read_products'', ''write_products'']
     = (Inl (MissingScopes ''POST /products'' [''write_products'']), reader)
   \<and> invoke 1 (busy_then_ok 0) no_helper reader (Product_create None) []
     = (Inl (MissingScopes ''POST /products'' [''write_products'']), [], reader)"
proof -
  have h1: "''POST /products'' \<notin> set (allowed_endpoints reader)"
    by (simp add: sample_defs)
  have h2: "\<not> set [''read_products'', ''write_products''] \<subseteq> set (held_scopes reader)"
    by (simp add: held_scopes_def sample_defs)
  have h3: "\<not> set [''write_products''] \<subseteq> set (held_scopes reader)"
    by (simp add: held_scopes_def sample_defs)
  have d: "declared reader (Product_create None) = Some (''POST /products'', [''write_products''])"
    by simp
  have held: "held_scopes reader = [''read_products'']"
    by (simp add: held_scopes_def sample_defs)
  show ?thesis
    using missing_scope_rejected [OF h1 h2, of "Product_create None" 1 "busy_then_ok 0" no_helper "[]"]
      missing_scope_rejected [OF h1 h3, of "Product_create None" 1 "busy_then_ok 0" no_helper "[]"] d
    by (simp add: held)
qed

text \<open>
  C2 as stated fails: for a token constructed with \<open>scopes = None\<close> the error is the one
  that names no scope.
\<close>

theorem no_scopes_error_names_nothing:
  "check_scopes (init ''products'' (Some ''t0k3n'') False None) ''POST /products'' [''write_products'']
     = (Inl NoScopesFound, init ''products'' (Some ''t0k3n'') False None)
   \<and> fst (check_scopes (init ''products'' (Some ''t0k3n'') False None) ''POST /products''
            [''write_products''])
     \<noteq> Inl (MissingScopes ''POST /products'' [''write_products''])"
  by (simp add: check_scopes_def init_def)

text \<open>
  C4: a successful check is remembered. Once \<open>check_scopes\<close> has returned for an endpoint
  and a list of required scopes, every later call for the same endpoint and list returns
  and leaves the object unchanged, whatever the scopes of the token are by then: they
  are not looked at.
\<close>

theorem check_scopes_cached:
  assumes "fst (check_scopes s endpoint r) = Inr ()"
    and "later (snd (check_scopes s endpoint r)) s'"
  shows "check_scopes (s'\<lparr>scopes := sc\<rparr>) endpoint r = (Inr (), s'\<lparr>scopes := sc\<rparr>)"
proof -
  from assms(1) have "endpoint \<in> set (allowed_endpoints (snd (check_scopes s endpoint r)))"
    by (rule check_scopes_success_approves)
  with assms(2) have "endpoint \<in> set (allowed_endpoints s')"
    by (rule later_keeps)
  then show ?thesis
    by (simp add: check_scopes_approved)
qed

theorem check_scopes_cached_witness:
  "fst (check_scopes reader ''GET /products'' [''read_products'']) = Inr ()
   \<and> check_scopes
         (snd (check_scopes (snd (check_scopes reader ''GET /products'' [''read_products'']))
                 ''POST /products'' [''write_products''])\<lparr>scopes := None\<rparr>)
         ''GET /products'' [''read_products'']
       = (Inr (),
          snd (check_scopes (snd (check_scopes reader ''GET /products'' [''read_products'']))
                 ''POST /products'' [''write_products''])\<lparr>scopes := None\<rparr>)"
proof -
  have h1: "fst (check_scopes reader ''GET /products'' [''read_products'']) = Inr ()"
    by (simp add: check_scopes_def sample_defs)
  have h2: "later (snd (check_scopes reader ''GET /products'' [''read_products'']))
              (snd (check_scopes (snd (check_scopes reader ''GET /products'' [''read_products'']))
                 ''POST /products'' [''write_products'']))"
    by (rule later.step) (rule later.now)
  show ?thesis
    using h1 check_scopes_cached [OF h1 h2, of None] by simp
qed




text \<open>
  C9: when the scopes of the token are \<open>None\<close> or the empty list, \<open>check_scopes\<close> raises
  \<open>No scopes found for token.\<close> for every endpoint that is not approved, whatever the
  required scopes are, the empty list included; and whenever \<open>check_scopes\<close> raises, the
  list of approved endpoints is what it was.
\<close>

theorem no_scopes_always_rejected:
  "((scopes s = None \<or> scopes s = Some []) \<and> e \<notin> set (allowed_endpoints s)
      \<longrightarrow> check_scopes s e r = (Inl NoScopesFound, s))
   \<and> (fst (check_scopes s' e' r') = Inl x
      \<longrightarrow> allowed_endpoints (snd (check_scopes s' e' r')) = allowed_endpoints s')"
  by (auto simp: check_scopes_raise_unchanged) (auto simp: check_scopes_def)

theorem no_scopes_always_rejected_witness:
  "check_scopes (init ''addresses'' (Some ''t0k3n'') False (Some [])) ''GET /addresses/count'' []
     = (Inl NoScopesFound, init ''addresses'' (Some ''t0k3n'') False (Some []))
   \<and> fst (check_scopes reader ''POST /products'' [''write_products''])
     = Inl (MissingScopes ''POST /products'' [''write_products''])
   \<and> allowed_endpoints (snd (check_scopes reader ''POST /products'' [''write_products'']))
     = allowed_endpoints reader"
proof -
  have h1: "(scopes (init ''addresses'' (Some ''t0k3n'') False (Some [])) = None
             \<or> scopes (init ''addresses'' (Some ''t0k3n'') False (Some [])) = Some [])
            \<and> ''GET /addresses/count''
                \<notin> set (allowed_endpoints (init ''addresses'' (Some ''t0k3n'') False (Some [])))"
    by (simp add: init_def)
  have h2: "fst (check_scopes reader ''POST /products'' [''write_products''])
              = Inl (MissingScopes ''POST /products'' [''write_products''])"
    by (simp add: check_scopes_def sample_defs)
  show ?thesis
    using h1 h2
      no_scopes_always_rejected [of "init ''addresses'' (Some ''t0k3n'') False (Some [])"
        "''GET /addresses/count''" "[]" reader "''POST /products''" "[''write_products'']"
        "MissingScopes ''POST /products'' [''write_products'']"]
    by simp
qed

text \<open>
  C10: the cache is keyed by the endpoint alone. Once \<open>check_scopes\<close> has returned for an
  endpoint, every later call for that endpoint returns, for any list of required scopes,
  also one with scopes the token does not hold.
\<close>

theorem cache_keyed_by_endpoint:
  assumes "fst (check_scopes s endpoint r) = Inr ()"
    and "later (snd (check_scopes s endpoint r)) s'"
  shows "check_scopes s' endpoint r' = (Inr (), s')"
proof (rule check_scopes_approved)
  have "endpoint \<in> set (allowed_endpoints (snd (check_scopes s endpoint r)))"
    using assms(1) by (rule check_scopes_success_approves)
  then show "endpoint \<in> set (allowed_endpoints s')"
    using assms(2) by (simp add: later_keeps)
qed

theorem cache_keyed_by_endpoint_witness:
  "fst (check_scopes reader ''GET /products'' [''read_products'']) = Inr ()
   \<and> check_scopes (snd (check_scopes reader ''GET /products'' [''read_products'']))
         ''GET /products'' [''write_products'', ''write_customers'']
       = (Inr (), snd (check_scopes reader ''GET /products'' [''read_products'']))"
proof -
  have h1: "fst (check_scopes reader ''GET /products'' [''read_products'']) = Inr ()"
    by (simp add: check_scopes_def sample_defs)
  have h2: "later (snd (check_scopes reader ''GET /products'' [''read_products'']))
              (snd (check_scopes reader ''GET /products'' [''read_products'']))"
    by (rule later.now)
  show ?thesis
    using h1 cache_keyed_by_endpoint [OF h1 h2, of "[''write_products'', ''write_customers'']"]
    by simp
qed

end
